theory Spec2Isabelle
  imports Complex_Main
begin

section \<open>Values, columns and tables\<close>

text \<open>
  A cell of a pandas column. \<open>Null\<close> stands for every missing value (\<open>None\<close>, \<open>NaN\<close>,
  \<open>NaT\<close>), which \<open>fillna\<close>, \<open>map\<close> and the \<open>.str\<close> accessor all treat alike.
  \<open>Integer\<close> is a Python integer, \<open>Float\<close> a float (read as a real number), \<open>Arr\<close> a list of
  strings as \<open>str.split\<close> produces it, \<open>Time\<close> a timestamp at midnight of a calendar
  day, either timezone-naive or in UTC, and \<open>Geom\<close> a geometry of the geometry column.
\<close>

datatype tz = Naive | UTC

datatype 'g cell =
    Null
  | Str string
  | Bool bool
  | Integer int
  | Float real
  | Arr "string list"
  | Time tz int int int
  | Geom 'g

type_synonym 'g column = "'g cell list"

text \<open>
  A table (a \<open>GeoDataFrame\<close>) is the list of its named columns, in column order; the
  columns of a table are equally long. What the code raises is a value of \<open>error\<close>.
  \<open>gdf[name]\<close> raises \<open>KeyError\<close> for a column the table does not have;
  \<open>gdf[name] = column\<close> replaces the column in place, or appends it as the last one.
  \<open>AttributeError\<close> is what the \<open>.str\<close> accessor raises. \<open>Raised\<close> stands for any
  other exception that comes out of pandas, numpy or the geometry library
  (\<open>ValueError\<close>, \<open>OutOfBoundsDatetime\<close>, \<open>TypeError\<close>, ...): which of them it is, is
  not told apart. The last three errors are those of the conversion pipeline.
\<close>

type_synonym 'g table = "(string \<times> 'g column) list"

datatype error =
    KeyError string
  | AttributeError
  | Raised
  | ConfigurationError
  | CoercionError
  | CardinalityError

text \<open>
  The dtype of a column follows from its values, as pandas infers it: a column of
  integers that fit 64 bits is an integer column (\<open>int64\<close> or \<open>uint64\<close>), a column of
  floats and missing values a \<open>float64\<close> column, a column of booleans a \<open>bool\<close>
  column, a column of timestamps of one kind and missing values a \<open>datetime64\<close>
  column, a column of geometries and missing values a geometry column. Every other
  column is an \<open>object\<close> column of Python values; so is, here, a column that has no
  value at all.
\<close>

datatype dtype =
    dt_object
  | dt_integer
  | dt_float64
  | dt_bool
  | dt_datetime64
  | dt_datetime64_utc
  | dt_geometry

fun is_integer :: "'g cell \<Rightarrow> bool" where
  "is_integer (Integer n) = True"
| "is_integer v = False"

fun is_float :: "'g cell \<Rightarrow> bool" where
  "is_float (Float r) = True"
| "is_float v = False"

fun is_bool :: "'g cell \<Rightarrow> bool" where
  "is_bool (Bool b) = True"
| "is_bool v = False"

fun is_time :: "'g cell \<Rightarrow> bool" where
  "is_time (Time z y m d) = True"
| "is_time v = False"

fun is_geom :: "'g cell \<Rightarrow> bool" where
  "is_geom (Geom g) = True"
| "is_geom v = False"

fun has_zone :: "tz \<Rightarrow> 'g cell \<Rightarrow> bool" where
  "has_zone z (Time z' y m d) = (z = z')"
| "has_zone z v = False"

fun int_within :: "int \<Rightarrow> int \<Rightarrow> 'g cell \<Rightarrow> bool" where
  "int_within lo hi (Integer n) = (lo \<le> n \<and> n < hi)"
| "int_within lo hi v = False"

definition present :: "'g column \<Rightarrow> 'g column" where
  "present column = filter (\<lambda>v. v \<noteq> Null) column"

definition dtype_of :: "'g column \<Rightarrow> dtype" where
  "dtype_of column =
     (if present column = [] then dt_object
      else if list_all (int_within (- (2 ^ 63)) (2 ^ 63)) column \<or>
              list_all (int_within 0 (2 ^ 64)) column then dt_integer
      else if list_all is_float (present column) then dt_float64
      else if list_all is_bool column then dt_bool
      else if list_all (has_zone Naive) (present column) then dt_datetime64
      else if list_all (has_zone UTC) (present column) then dt_datetime64_utc
      else if list_all is_geom (present column) then dt_geometry
      else dt_object)"

definition column_names :: "'g table \<Rightarrow> string list" where
  "column_names gdf = map fst gdf"

definition get_column :: "'g table \<Rightarrow> string \<Rightarrow> error + 'g column" where
  "get_column gdf name = (case map_of gdf name of None \<Rightarrow> Inl (KeyError name) | Some c \<Rightarrow> Inr c)"

fun set_column :: "'g table \<Rightarrow> string \<Rightarrow> 'g column \<Rightarrow> 'g table" where
  "set_column [] name c = [(name, c)]"
| "set_column ((n, old) # gdf) name c =
     (if n = name then (n, c) # gdf else (n, old) # set_column gdf name c)"

section \<open>The pandas operations the descriptors call\<close>

text \<open>
  \<open>Series.map(d)\<close> for a dict \<open>d\<close> whose keys are strings: a value that is a key of
  the dict becomes the dict's value, every other value (a missing one too) becomes
  missing. The dict is kept as the association list of its literal. A mapped column
  holds the values of a field of the source file (texts, numbers, missing values);
  lists, which a dict cannot look up, come into a table only through \<open>str.split\<close>.
\<close>

fun dict_get :: "(string \<times> 'g cell) list \<Rightarrow> 'g cell \<Rightarrow> 'g cell" where
  "dict_get d (Str s) = (case map_of d s of Some v \<Rightarrow> v | None \<Rightarrow> Null)"
| "dict_get d v = Null"

definition series_map :: "(string \<times> 'g cell) list \<Rightarrow> 'g column \<Rightarrow> 'g column" where
  "series_map d column = map (dict_get d) column"

text \<open>\<open>Series.fillna(value=v)\<close>: every missing value becomes \<open>v\<close>.\<close>

fun fill_cell :: "'g cell \<Rightarrow> 'g cell \<Rightarrow> 'g cell" where
  "fill_cell v Null = v"
| "fill_cell v c = c"

definition fillna :: "'g cell \<Rightarrow> 'g column \<Rightarrow> 'g column" where
  "fillna v column = map (fill_cell v) column"

text \<open>
  \<^verbatim>\<open>delim = re.compile(r'\s*,\s*')\<close> and \<open>delim.split(s)\<close>. A character is a code point
  below 256; \<open>\s\<close> matches the ones for which Python's \<open>str.isspace\<close> holds. A match
  starts at the whitespace run that ends in a comma and takes the comma and all the
  whitespace after it; the search goes on behind the match. \<open>cur\<close> is the field read
  so far and \<open>ws\<close> the whitespace run just read, which belongs to the field unless a
  comma follows.
\<close>

definition is_space :: "char \<Rightarrow> bool" where
  "is_space c = (of_char c \<in> set [9, 10, 11, 12, 13, 28, 29, 30, 31, 32, 133, 160 :: nat])"

function delim_split :: "string \<Rightarrow> string \<Rightarrow> string \<Rightarrow> string list" where
  "delim_split cur ws [] = [cur @ ws]"
| "delim_split cur ws (c # cs) =
     (if c = CHR '','' then cur # delim_split [] [] (dropWhile is_space cs)
      else if is_space c then delim_split cur (ws @ [c]) cs
      else delim_split (cur @ ws @ [c]) [] cs)"
  by pat_completeness auto
termination
  by (relation "measure (\<lambda>(cur, ws, s). length s)")
     (auto simp: length_dropWhile_le less_Suc_eq_le)

text \<open>
  \<open>column.str\<close>: pandas gives the accessor to a column whose values, the missing ones
  left out, it infers to be \<open>string\<close>, \<open>empty\<close>, \<open>mixed\<close> or \<open>mixed-integer\<close>, and
  raises \<open>AttributeError\<close> for any other column: one whose values are all numbers,
  all booleans, all timestamps or all geometries.
\<close>

definition str_accessor :: "'g column \<Rightarrow> bool" where
  "str_accessor column =
     (present column = [] \<or>
      \<not> (list_all (\<lambda>v. is_integer v \<or> is_float v) (present column) \<or>
         list_all is_bool (present column) \<or>
         list_all is_time (present column) \<or>
         list_all is_geom (present column)))"

text \<open>
  \<open>Series.str.split(delim, regex=True)\<close>: once the accessor is given, a string becomes
  the list of its fields; a missing value, and a value that is not a string, becomes
  missing.
\<close>

fun str_split_cell :: "'g cell \<Rightarrow> 'g cell" where
  "str_split_cell (Str s) = Arr (delim_split [] [] s)"
| "str_split_cell v = Null"

definition str_split :: "'g column \<Rightarrow> error + 'g column" where
  "str_split column =
     (if str_accessor column then Inr (map str_split_cell column) else Inl AttributeError)"

subsection \<open>\<open>pd.to_datetime\<close> with a format\<close>

text \<open>
  The two formats of the descriptors, \<open>%d.%m.%Y\<close> and \<open>%Y\<close>, as pandas' \<open>strptime\<close>
  reads them: the whole text must match, \<open>%d\<close> is
  \<^verbatim>\<open>3[0-1]|[1-2]\d|0[1-9]|[1-9]| [1-9]\<close>, \<open>%m\<close> is \<^verbatim>\<open>1[0-2]|0[1-9]|[1-9]\<close> and \<open>%Y\<close>
  is four digits; a field that is absent from the format is 1.
\<close>

definition is_digit :: "char \<Rightarrow> bool" where
  "is_digit c = (c \<in> set ''0123456789'')"

definition digit_val :: "char \<Rightarrow> int" where
  "digit_val c = int (of_char c) - 48"

fun match_d :: "string \<Rightarrow> int option" where
  "match_d [a] = (if is_digit a \<and> a \<noteq> CHR ''0'' then Some (digit_val a) else None)"
| "match_d [a, b] =
     (if (a = CHR ''3'' \<and> b \<in> set ''01'') \<or> (a \<in> set ''12'' \<and> is_digit b) \<or>
         (a = CHR ''0'' \<and> is_digit b \<and> b \<noteq> CHR ''0'')
      then Some (10 * digit_val a + digit_val b)
      else if a = CHR '' '' \<and> is_digit b \<and> b \<noteq> CHR ''0'' then Some (digit_val b)
      else None)"
| "match_d s = None"

fun match_m :: "string \<Rightarrow> int option" where
  "match_m [a] = (if is_digit a \<and> a \<noteq> CHR ''0'' then Some (digit_val a) else None)"
| "match_m [a, b] =
     (if (a = CHR ''1'' \<and> b \<in> set ''012'') \<or> (a = CHR ''0'' \<and> is_digit b \<and> b \<noteq> CHR ''0'')
      then Some (10 * digit_val a + digit_val b) else None)"
| "match_m s = None"

fun match_Y :: "string \<Rightarrow> int option" where
  "match_Y [a, b, c, d] =
     (if is_digit a \<and> is_digit b \<and> is_digit c \<and> is_digit d
      then Some (1000 * digit_val a + 100 * digit_val b + 10 * digit_val c + digit_val d)
      else None)"
| "match_Y s = None"

text \<open>The text before the first full stop, and the text behind it (if there is one).\<close>

definition upto_dot :: "string \<Rightarrow> string \<times> string option" where
  "upto_dot s =
     (takeWhile (\<lambda>c. c \<noteq> CHR ''.'') s,
      case dropWhile (\<lambda>c. c \<noteq> CHR ''.'') s of [] \<Rightarrow> None | c # rest \<Rightarrow> Some rest)"

definition strptime_dmY :: "string \<Rightarrow> (int \<times> int \<times> int) option" where
  "strptime_dmY s =
     (case upto_dot s of
        (ds, None) \<Rightarrow> None
      | (ds, Some s1) \<Rightarrow>
          (case upto_dot s1 of
             (ms, None) \<Rightarrow> None
           | (ms, Some ys) \<Rightarrow>
               (case (match_d ds, match_m ms, match_Y ys) of
                  (Some d, Some m, Some y) \<Rightarrow> Some (y, m, d)
                | _ \<Rightarrow> None)))"

definition strptime_Y :: "string \<Rightarrow> (int \<times> int \<times> int) option" where
  "strptime_Y s = (case match_Y s of Some y \<Rightarrow> Some (y, 1, 1) | None \<Rightarrow> None)"

text \<open>
  A day of the calendar, and the days a nanosecond timestamp can hold at midnight:
  1677-09-22 to 2262-04-11.
\<close>

definition leap_year :: "int \<Rightarrow> bool" where
  "leap_year y = (y mod 4 = 0 \<and> (y mod 100 \<noteq> 0 \<or> y mod 400 = 0))"

definition days_in_month :: "int \<Rightarrow> int \<Rightarrow> int" where
  "days_in_month y m =
     (if m = 2 then (if leap_year y then 29 else 28)
      else if m \<in> set [4, 6, 9, 11] then 30 else 31)"

definition valid_date :: "int \<times> int \<times> int \<Rightarrow> bool" where
  "valid_date ymd = (case ymd of (y, m, d) \<Rightarrow>
     1 \<le> y \<and> 1 \<le> m \<and> m \<le> 12 \<and> 1 \<le> d \<and> d \<le> days_in_month y m)"

definition in_bounds :: "int \<times> int \<times> int \<Rightarrow> bool" where
  "in_bounds ymd = (case ymd of (y, m, d) \<Rightarrow>
     (1677 < y \<or> (y = 1677 \<and> (9 < m \<or> (m = 9 \<and> 22 \<le> d)))) \<and>
     (y < 2262 \<or> (y = 2262 \<and> (m < 4 \<or> (m = 4 \<and> d \<le> 11)))))"

text \<open>\<open>str(n)\<close> of a Python integer.\<close>

fun str_nat :: "nat \<Rightarrow> string" where
  "str_nat n =
     (if n < 10 then [char_of (48 + n)] else str_nat (n div 10) @ [char_of (48 + n mod 10)])"

definition py_str :: "int \<Rightarrow> string" where
  "py_str i = (if i < 0 then CHR ''-'' # str_nat (nat (- i)) else str_nat (nat i))"

text \<open>
  One value of \<open>pd.to_datetime(column, format=..., utc=...)\<close>, with \<open>errors\<close> left at
  \<open>'raise'\<close>, as the parser reads the Python values of a column. A missing value
  stays missing (\<open>NaT\<close>), and so do the empty text and the texts \<open>NaT\<close> and \<open>nan\<close> in
  the spellings below. Any other text is parsed; an integer is parsed as its \<open>str\<close>
  (the least 64-bit integer is the mark of \<open>NaT\<close>). A text that does not match, or
  names no day of the calendar, or a day outside the range of a timestamp, raises. The
  parsed time carries no zone: it is timezone-naive, and only \<open>utc=True\<close> makes it an
  instant in UTC. A timestamp is kept, and put in UTC by \<open>utc=True\<close>. The \<open>str\<close> of a
  float, a boolean, a list or a geometry matches neither format.
\<close>

definition nat_strings :: "string list" where
  "nat_strings = [[], ''NaT'', ''nat'', ''NAT'', ''nan'', ''NaN'', ''NAN'']"

definition stamp :: "bool \<Rightarrow> (int \<times> int \<times> int) option \<Rightarrow> error + 'g cell" where
  "stamp utc r =
     (case r of
        None \<Rightarrow> Inl Raised
      | Some (y, m, d) \<Rightarrow>
          if valid_date (y, m, d) \<and> in_bounds (y, m, d)
          then Inr (Time (if utc then UTC else Naive) y m d)
          else Inl Raised)"

fun to_datetime_cell :: "(string \<Rightarrow> (int \<times> int \<times> int) option) \<Rightarrow> bool \<Rightarrow> 'g cell \<Rightarrow> error + 'g cell" where
  "to_datetime_cell fmt utc Null = Inr Null"
| "to_datetime_cell fmt utc (Str s) =
     (if s \<in> set nat_strings then Inr Null else stamp utc (fmt s))"
| "to_datetime_cell fmt utc (Integer n) =
     (if n = - (2 ^ 63) then Inr Null else stamp utc (fmt (py_str n)))"
| "to_datetime_cell fmt utc (Time z y m d) = Inr (Time (if utc then UTC else z) y m d)"
| "to_datetime_cell fmt utc v = Inl Raised"

text \<open>The values are converted from the first row on; the first failure is raised.\<close>

fun to_datetime_cells :: "(string \<Rightarrow> (int \<times> int \<times> int) option) \<Rightarrow> bool \<Rightarrow> 'g column \<Rightarrow> error + 'g column" where
  "to_datetime_cells fmt utc [] = Inr []"
| "to_datetime_cells fmt utc (v # vs) =
     (case to_datetime_cell fmt utc v of
        Inl e \<Rightarrow> Inl e
      | Inr t \<Rightarrow>
          (case to_datetime_cells fmt utc vs of Inl e \<Rightarrow> Inl e | Inr ts \<Rightarrow> Inr (t # ts)))"

text \<open>
  Before the values are parsed, pandas looks at the dtype of the column: the floats of
  a \<open>float64\<close> column are cut to integers (towards zero; a float that no 64-bit
  integer holds becomes the mark of \<open>NaT\<close>), and a \<open>bool\<close> column is refused.
\<close>

fun float_to_int :: "'g cell \<Rightarrow> 'g cell" where
  "float_to_int (Float r) =
     (if - (2 ^ 63) \<le> r \<and> r < 2 ^ 63
      then Integer (if 0 \<le> r then \<lfloor>r\<rfloor> else \<lceil>r\<rceil>) else Null)"
| "float_to_int v = v"

text \<open>Timezone-naive and timezone-aware values in one result raise.\<close>

definition to_datetime :: "(string \<Rightarrow> (int \<times> int \<times> int) option) \<Rightarrow> bool \<Rightarrow> 'g column \<Rightarrow> error + 'g column" where
  "to_datetime fmt utc column =
     (if dtype_of column = dt_bool then Inl Raised
      else
        (case to_datetime_cells fmt utc
                (if dtype_of column = dt_float64 then map float_to_int column else column) of
           Inl e \<Rightarrow> Inl e
         | Inr ts \<Rightarrow>
             if list_ex (has_zone Naive) ts \<and> list_ex (has_zone UTC) ts then Inl Raised
             else Inr ts))"

subsection \<open>Comparison, geometry and \<open>np.where\<close>\<close>

text \<open>\<open>column == "LF"\<close> and \<open>column == 0\<close>, value by value; in Python \<open>False == 0\<close> holds.\<close>

definition eq_str :: "string \<Rightarrow> 'g column \<Rightarrow> bool list" where
  "eq_str s column = map (\<lambda>v. v = Str s) column"

fun is_zero :: "'g cell \<Rightarrow> bool" where
  "is_zero (Integer n) = (n = 0)"
| "is_zero (Float r) = (r = 0)"
| "is_zero (Bool b) = (\<not> b)"
| "is_zero v = False"

definition eq_zero :: "'g column \<Rightarrow> bool list" where
  "eq_zero column = map is_zero column"

text \<open>
  The geometry column holds geometries and missing values. \<open>GeoSeries.make_valid\<close> and
  \<open>GeoDataFrame.area\<close> work value by value through the geometry library, whose two
  functions \<open>valid\<close> and \<open>area_of\<close> are parameters here. A missing geometry stays
  missing and has a missing area.
\<close>

fun make_valid_cell :: "('g \<Rightarrow> 'g) \<Rightarrow> 'g cell \<Rightarrow> error + 'g cell" where
  "make_valid_cell valid (Geom g) = Inr (Geom (valid g))"
| "make_valid_cell valid Null = Inr Null"
| "make_valid_cell valid v = Inl Raised"

fun area_cell :: "('g \<Rightarrow> real) \<Rightarrow> 'g cell \<Rightarrow> error + 'g cell" where
  "area_cell area_of (Geom g) = Inr (Float (area_of g))"
| "area_cell area_of Null = Inr Null"
| "area_cell area_of v = Inl Raised"

fun all_cells :: "('g cell \<Rightarrow> error + 'g cell) \<Rightarrow> 'g column \<Rightarrow> error + 'g column" where
  "all_cells f [] = Inr []"
| "all_cells f (v # vs) =
     (case f v of
        Inl e \<Rightarrow> Inl e
      | Inr w \<Rightarrow> (case all_cells f vs of Inl e \<Rightarrow> Inl e | Inr ws \<Rightarrow> Inr (w # ws)))"

definition make_valid :: "('g \<Rightarrow> 'g) \<Rightarrow> 'g column \<Rightarrow> error + 'g column" where
  "make_valid valid column = all_cells (make_valid_cell valid) column"

definition gdf_area :: "('g \<Rightarrow> real) \<Rightarrow> 'g table \<Rightarrow> error + 'g column" where
  "gdf_area area_of gdf =
     (case get_column gdf ''geometry'' of
        Inl e \<Rightarrow> Inl e
      | Inr column \<Rightarrow> all_cells (area_cell area_of) column)"

text \<open>\<open>column / 10000\<close> on a column of floats.\<close>

fun div_cell :: "real \<Rightarrow> 'g cell \<Rightarrow> 'g cell" where
  "div_cell k (Float r) = Float (r / k)"
| "div_cell k v = Null"

definition div_column :: "'g column \<Rightarrow> real \<Rightarrow> 'g column" where
  "div_column column k = map (div_cell k) column"

text \<open>
  The float64 nearest to an integer, as numpy's cast gives it: the integer itself up
  to 53 bits, and beyond that the nearest multiple of the power of two that leaves 53
  bits, the even one of two that are equally near.
\<close>

function bit_length :: "int \<Rightarrow> nat" where
  "bit_length n = (if n \<le> 0 then 0 else Suc (bit_length (n div 2)))"
  by pat_completeness auto
termination
  by (relation "measure nat") auto

definition round_int :: "int \<Rightarrow> int" where
  "round_int n =
     (if n < 2 ^ 53 then n
      else (let u = 2 ^ (bit_length n - 53); q = n div u; r = n mod u
            in (if u < 2 * r \<or> (2 * r = u \<and> odd q) then q + 1 else q) * u))"

definition float64_of_int :: "int \<Rightarrow> real" where
  "float64_of_int n = (if n < 0 then - of_int (round_int (- n)) else of_int (round_int n))"

fun as_float64 :: "'g cell \<Rightarrow> 'g cell" where
  "as_float64 (Integer n) = Float (float64_of_int n)"
| "as_float64 (Bool b) = Float (if b then 1 else 0)"
| "as_float64 v = v"

text \<open>
  Row by row, the value of \<open>x\<close> where \<open>cond\<close> holds and the value of \<open>y\<close> elsewhere.
  The three columns are equally long.
\<close>

fun pick :: "bool list \<Rightarrow> 'g column \<Rightarrow> 'g column \<Rightarrow> 'g column" where
  "pick (c # cs) (x # xs) (y # ys) = (if c then x else y) # pick cs xs ys"
| "pick cs xs ys = []"

text \<open>
  \<open>np.where(cond, x, y)\<close> for a \<open>float64\<close> column \<open>x\<close>: numpy brings both columns to
  one dtype first. The values of an integer or \<open>bool\<close> column \<open>y\<close> become floats; a
  \<open>float64\<close> column stays as it is; with an \<open>object\<close> column, a geometry column or a
  column of instants in UTC the result is an array of Python values, each kept as it
  is; a column of timezone-naive timestamps has no dtype in common with floats, and
  numpy raises.
\<close>

definition np_where :: "bool list \<Rightarrow> 'g column \<Rightarrow> 'g column \<Rightarrow> error + 'g column" where
  "np_where cond x y =
     (if dtype_of y = dt_datetime64 then Inl Raised
      else if dtype_of y = dt_integer \<or> dtype_of y = dt_bool
      then Inr (pick cond x (map as_float64 y))
      else Inr (pick cond x y))"

section \<open>de\_th: column migrations\<close>

text \<open>
  \<^verbatim>\<open>'AFO': lambda column: column.map({'J': True}).fillna(value=False)\<close>
  \<^verbatim>\<open>'KOND_LE': lambda column: column.map({'J': True}).fillna(value=False)\<close>
  \<^verbatim>\<open>'AENDERUNG': lambda column: column.map({'Geaendert': True, 'Unveraendert': False, 'Neu': None})\<close>
\<close>

definition migrate_AFO :: "'g column \<Rightarrow> 'g column" where
  "migrate_AFO column = fillna (Bool False) (series_map [(''J'', Bool True)] column)"

definition migrate_KOND_LE :: "'g column \<Rightarrow> 'g column" where
  "migrate_KOND_LE column = fillna (Bool False) (series_map [(''J'', Bool True)] column)"

definition migrate_AENDERUNG :: "'g column \<Rightarrow> 'g column" where
  "migrate_AENDERUNG column =
     series_map [(''Geaendert'', Bool True), (''Unveraendert'', Bool False), (''Neu'', Null)] column"

text \<open>\<^verbatim>\<open>'FBI_VJ': lambda column: column.str.split(delim, regex = True)\<close>\<close>

definition migrate_FBI_VJ :: "'g column \<Rightarrow> error + 'g column" where
  "migrate_FBI_VJ column = str_split column"

text \<open>
  \<open>COLUMN_MIGRATIONS\<close>, in the order of the dict literal. A migration returns a
  column or raises; \<open>returns\<close> marks the ones that always return.
\<close>

definition returns :: "('g column \<Rightarrow> 'g column) \<Rightarrow> 'g column \<Rightarrow> error + 'g column" where
  "returns f column = Inr (f column)"

definition de_th_COLUMN_MIGRATIONS :: "(string \<times> ('g column \<Rightarrow> error + 'g column)) list" where
  "de_th_COLUMN_MIGRATIONS =
     [(''AFO'', returns migrate_AFO), (''KOND_LE'', returns migrate_KOND_LE),
      (''AENDERUNG'', returns migrate_AENDERUNG), (''FBI_VJ'', migrate_FBI_VJ)]"

section \<open>de\_th: column map and schema fragment\<close>

text \<open>\<open>COLUMNS\<close>: source column name to target name, in the order of the dict literal.\<close>

definition de_th_COLUMNS :: "(string \<times> string) list" where
  "de_th_COLUMNS =
     [(''geometry'', ''geometry''), (''BEZUGSJAHR'', ''valid_year''), (''FBI'', ''flik''),
      (''FBI_KURZ'', ''id''), (''FB_FLAECHE'', ''area''), (''FBI_VJ'', ''flik_last_year''),
      (''FB_FL_VJ'', ''area_last_year''), (''TK10'', ''tk10''), (''AFO'', ''afo''),
      (''BNK'', ''bnk''), (''KOND_LE'', ''kond_le''), (''AENDERUNG'', ''change''),
      (''GEO_UPDAT'', ''determination_datetime'')]"

text \<open>
  A property of \<open>MISSING_SCHEMAS\<close>: its type, its numeric bounds (each may be
  absent) and, for an array, the schema of its items.
\<close>

record items_schema =
  items_type :: string
  minLength :: nat
  maxLength :: nat
  pattern :: string

record prop_schema =
  type :: string
  minimum :: "real option"
  exclusiveMinimum :: "real option"
  maximum :: "real option"
  items :: "items_schema option"

definition plain :: "string \<Rightarrow> prop_schema" where
  "plain t = \<lparr>type = t, minimum = None, exclusiveMinimum = None, maximum = None, items = None\<rparr>"

definition de_th_MISSING_required :: "string list" where
  "de_th_MISSING_required = [''valid_year'', ''area_last_year'', ''tk10'', ''bnk'']"

definition de_th_MISSING_properties :: "(string \<times> prop_schema) list" where
  "de_th_MISSING_properties =
     [(''valid_year'', plain ''int16''),
      (''flik_last_year'',
         \<lparr>type = ''array'', minimum = None, exclusiveMinimum = None, maximum = None,
          items = Some \<lparr>items_type = ''string'', minLength = 16, maxLength = 16,
            pattern = ''^[A-Z]{2}[A-Z0-9]{2}[A-Z0-9]{2}[A-Z0-9]{10}$''\<rparr>\<rparr>),
      (''area_last_year'',
         \<lparr>type = ''float'', minimum = None, exclusiveMinimum = Some 0, maximum = Some 100000,
          items = None\<rparr>),
      (''tk10'', plain ''string''),
      (''afo'', plain ''boolean''),
      (''bnk'', plain ''string''),
      (''kond_le'', plain ''boolean''),
      (''change'', plain ''boolean'')]"

text \<open>The source columns that are renamed to a target declared with the given type.\<close>

definition sources_of_type :: "string \<Rightarrow> string list" where
  "sources_of_type t =
     map fst (filter (\<lambda>(src, tgt). tgt \<in> set (map fst (filter (\<lambda>(n, sch). type sch = t) de_th_MISSING_properties))) de_th_COLUMNS)"

fun is_boolean_or_null :: "'g cell \<Rightarrow> bool" where
  "is_boolean_or_null Null = True"
| "is_boolean_or_null (Bool b) = True"
| "is_boolean_or_null v = False"

section \<open>de\_th: global migration and row filter\<close>

text \<open>
  \<^verbatim>\<open>def migrate(gdf):\<close>
  \<^verbatim>\<open>    col = "GEO_UPDAT"\<close>
  \<^verbatim>\<open>    gdf[col] = pd.to_datetime(gdf[col], format = "%d.%m.%Y", utc = True)\<close>
  \<^verbatim>\<open>    return gdf\<close>
\<close>

definition de_th_migrate :: "'g table \<Rightarrow> error + 'g table" where
  "de_th_migrate gdf =
     (case get_column gdf ''GEO_UPDAT'' of
        Inl e \<Rightarrow> Inl e
      | Inr column \<Rightarrow>
          (case to_datetime strptime_dmY True column of
             Inl e \<Rightarrow> Inl e
           | Inr stamps \<Rightarrow> Inr (set_column gdf ''GEO_UPDAT'' stamps)))"

text \<open>\<^verbatim>\<open>COLUMN_FILTERS = { "LF": lambda col: col == "LF" }\<close>\<close>

definition filter_LF :: "'g column \<Rightarrow> bool list" where
  "filter_LF col = eq_str ''LF'' col"

definition de_th_COLUMN_FILTERS :: "(string \<times> ('g column \<Rightarrow> bool list)) list" where
  "de_th_COLUMN_FILTERS = [(''LF'', filter_LF)]"

section \<open>fi: column map and global migration\<close>

definition fi_COLUMNS :: "(string \<times> string) list" where
  "fi_COLUMNS =
     [(''geometry'', ''geometry''), (''PERUSLOHKOTUNNUS'', ''id''), (''LOHKONUMERO'', ''block_id''),
      (''area'', ''area''), (''KASVIKOODI'', ''crop_code''), (''KASVIKOODI_SELITE_FI'', ''crop_name'')]"

text \<open>
  \<^verbatim>\<open>def migrate(gdf):\<close>
  \<^verbatim>\<open>    gdf['determination_datetime'] = pd.to_datetime(gdf['VUOSI'], format='%Y')\<close>
  \<^verbatim>\<open>    gdf['geometry'] = gdf["geometry"].make_valid()\<close>
  \<^verbatim>\<open>    gdf['area'] = np.where(gdf['PINTA_ALA'] == 0, gdf.area / 10000, gdf['PINTA_ALA'])\<close>
  \<^verbatim>\<open>    return gdf\<close>
  \<open>gdf.area\<close> is the property of the frame, the areas of the geometries, also when
  the table has a column of that name.
\<close>

definition fi_migrate :: "('g \<Rightarrow> 'g) \<Rightarrow> ('g \<Rightarrow> real) \<Rightarrow> 'g table \<Rightarrow> error + 'g table" where
  "fi_migrate valid area_of gdf =
     (case get_column gdf ''VUOSI'' of
        Inl e \<Rightarrow> Inl e
      | Inr vuosi \<Rightarrow>
     (case to_datetime strptime_Y False vuosi of
        Inl e \<Rightarrow> Inl e
      | Inr stamps \<Rightarrow>
     (let gdf1 = set_column gdf ''determination_datetime'' stamps in
     (case get_column gdf1 ''geometry'' of
        Inl e \<Rightarrow> Inl e
      | Inr geometry \<Rightarrow>
     (case make_valid valid geometry of
        Inl e \<Rightarrow> Inl e
      | Inr repaired \<Rightarrow>
     (let gdf2 = set_column gdf1 ''geometry'' repaired in
     (case get_column gdf2 ''PINTA_ALA'' of
        Inl e \<Rightarrow> Inl e
      | Inr pinta_ala \<Rightarrow>
     (case gdf_area area_of gdf2 of
        Inl e \<Rightarrow> Inl e
      | Inr areas \<Rightarrow>
     (case np_where (eq_zero pinta_ala) (div_column areas 10000) pinta_ala of
        Inl e \<Rightarrow> Inl e
      | Inr area \<Rightarrow> Inr (set_column gdf2 ''area'' area))))))))))"

section \<open>The conversion pipeline\<close>

text \<open>
  The descriptors hand their tables and functions to \<open>convert_utils.convert\<close>, which is
  not among the source files. Its stages are modelled from the specification and from
  the list of steps in the docstring of \<open>de_th.convert\<close>.
\<close>

text \<open>
  Modelled from the spec: the Row Filter Engine of \<open>convert_utils\<close> (section 4.2). For
  each declared filter, in turn, only the rows where the predicate holds are kept, in
  their order; a filter on a column the table does not have is a configuration error.
\<close>

fun select_rows :: "bool list \<Rightarrow> 'a list \<Rightarrow> 'a list" where
  "select_rows (b # bs) (x # xs) = (if b then x # select_rows bs xs else select_rows bs xs)"
| "select_rows bs xs = []"

fun run_filters :: "(string \<times> ('g column \<Rightarrow> bool list)) list \<Rightarrow> 'g table \<Rightarrow> error + 'g table" where
  "run_filters [] gdf = Inr gdf"
| "run_filters ((name, keep) # fs) gdf =
     (case map_of gdf name of
        None \<Rightarrow> Inl ConfigurationError
      | Some column \<Rightarrow> run_filters fs (map (\<lambda>(n, c). (n, select_rows (keep column) c)) gdf))"

text \<open>
  Modelled from the spec: the Column Migration Engine of \<open>convert_utils\<close> (section
  4.3). For each declared migration, in turn, the column is replaced by what the
  transform returns for it; a result of another length is a cardinality error, a
  migration of a column the table does not have a configuration error. What a
  transform raises ends the run.
\<close>

fun run_column_migrations :: "(string \<times> ('g column \<Rightarrow> error + 'g column)) list \<Rightarrow> 'g table \<Rightarrow> error + 'g table" where
  "run_column_migrations [] gdf = Inr gdf"
| "run_column_migrations ((name, f) # ms) gdf =
     (case map_of gdf name of
        None \<Rightarrow> Inl ConfigurationError
      | Some column \<Rightarrow>
          (case f column of
             Inl e \<Rightarrow> Inl e
           | Inr changed \<Rightarrow>
               if length changed \<noteq> length column then Inl CardinalityError
               else run_column_migrations ms (set_column gdf name changed)))"

text \<open>
  Modelled from the spec: Column Projection of \<open>convert_utils\<close> (section 4.4, steps 4
  to 6 of section 4.1). A column map gives every source column the list of its target
  names; \<open>single\<close> reads a map that names one target for each source, as the maps of
  both descriptors do. A source column with targets becomes one column for each
  target, with the target's name; a source of the map that the table does not have is
  a configuration error. Then every column whose name is not a target is dropped.
\<close>

definition single :: "(string \<times> string) list \<Rightarrow> (string \<times> string list) list" where
  "single columns = map (\<lambda>(source, target). (source, [target])) columns"

definition targets :: "(string \<times> string list) list \<Rightarrow> string list" where
  "targets cmap = concat (map snd cmap)"

definition rename_columns :: "(string \<times> string list) list \<Rightarrow> 'g table \<Rightarrow> error + 'g table" where
  "rename_columns cmap gdf =
     (if list_ex (\<lambda>(source, ts). source \<notin> set (column_names gdf)) cmap
      then Inl ConfigurationError
      else Inr (concat (map (\<lambda>(n, c).
             case map_of cmap n of None \<Rightarrow> [(n, c)] | Some ts \<Rightarrow> map (\<lambda>t. (t, c)) ts) gdf)))"

definition prune_columns :: "(string \<times> string list) list \<Rightarrow> 'g table \<Rightarrow> 'g table" where
  "prune_columns cmap gdf = filter (\<lambda>(n, c). n \<in> set (targets cmap)) gdf"

definition project :: "(string \<times> string list) list \<Rightarrow> 'g table \<Rightarrow> error + 'g table" where
  "project cmap gdf =
     (case rename_columns cmap gdf of
        Inl e \<Rightarrow> Inl e
      | Inr renamed \<Rightarrow> Inr (prune_columns cmap renamed))"

text \<open>
  Modelled from the spec: the order of the stages of \<open>convert_utils.convert\<close> up to
  column pruning (section 4.1, steps 1 to 6): global migration, row filters, column
  migrations, projection. A stage that fails ends the run with its error; a stage the
  descriptor does not configure does nothing.
\<close>

record 'g descriptor =
  columns :: "(string \<times> string list) list"
  migration :: "('g table \<Rightarrow> error + 'g table) option"
  column_filters :: "(string \<times> ('g column \<Rightarrow> bool list)) list"
  column_migrations :: "(string \<times> ('g column \<Rightarrow> error + 'g column)) list"

definition convert_table :: "'g descriptor \<Rightarrow> 'g table \<Rightarrow> error + 'g table" where
  "convert_table D gdf =
     (case (case migration D of None \<Rightarrow> Inr gdf | Some m \<Rightarrow> m gdf) of
        Inl e \<Rightarrow> Inl e
      | Inr migrated \<Rightarrow>
     (case run_filters (column_filters D) migrated of
        Inl e \<Rightarrow> Inl e
      | Inr filtered \<Rightarrow>
     (case run_column_migrations (column_migrations D) filtered of
        Inl e \<Rightarrow> Inl e
      | Inr changed \<Rightarrow> project (columns D) changed)))"

text \<open>The two descriptors, as their \<open>convert\<close> functions pass them on.\<close>

definition de_th :: "'g descriptor" where
  "de_th = \<lparr>columns = single de_th_COLUMNS, migration = Some de_th_migrate,
            column_filters = de_th_COLUMN_FILTERS, column_migrations = de_th_COLUMN_MIGRATIONS\<rparr>"

definition fi :: "('g \<Rightarrow> 'g) \<Rightarrow> ('g \<Rightarrow> real) \<Rightarrow> 'g descriptor" where
  "fi valid area_of = \<lparr>columns = single fi_COLUMNS, migration = Some (fi_migrate valid area_of),
            column_filters = [], column_migrations = []\<rparr>"

text \<open>
  Modelled from the spec: the numeric part of the Type Coercion Engine of
  \<open>convert_utils\<close> (section 4.6). A number must lie within the declared bounds. A value
  that is out of range, or is no number, is a fatal coercion error for a required
  property; for an optional one it becomes null and its row is reported in a warning.
  After coercion a required property must have no null.
\<close>

definition in_range :: "prop_schema \<Rightarrow> real \<Rightarrow> bool" where
  "in_range sch r =
     ((case minimum sch of None \<Rightarrow> True | Some lo \<Rightarrow> lo \<le> r) \<and>
      (case exclusiveMinimum sch of None \<Rightarrow> True | Some lo \<Rightarrow> lo < r) \<and>
      (case maximum sch of None \<Rightarrow> True | Some hi \<Rightarrow> r \<le> hi))"

fun number_of :: "'g cell \<Rightarrow> real option" where
  "number_of (Integer n) = Some (of_int n)"
| "number_of (Float r) = Some r"
| "number_of v = None"

definition conforms :: "prop_schema \<Rightarrow> 'g cell \<Rightarrow> bool" where
  "conforms sch v = (case number_of v of None \<Rightarrow> False | Some r \<Rightarrow> in_range sch r)"

fun coerce_numeric :: "prop_schema \<Rightarrow> bool \<Rightarrow> nat \<Rightarrow> 'g column \<Rightarrow> error + ('g column \<times> nat list)" where
  "coerce_numeric sch required row [] = Inr ([], [])"
| "coerce_numeric sch required row (v # vs) =
     (if required \<and> (v = Null \<or> \<not> conforms sch v) then Inl CoercionError
      else (case coerce_numeric sch required (Suc row) vs of
              Inl e \<Rightarrow> Inl e
            | Inr (ws, warned) \<Rightarrow>
                if v = Null \<or> conforms sch v then Inr (v # ws, warned)
                else Inr (Null # ws, row # warned)))"

text \<open>
  Modelled from the spec: step 9 of \<open>convert_utils.convert\<close> (sections 4.1 and 4.6),
  for the numeric properties of the schema fragment of a descriptor. Every column
  whose name the fragment declares with a numeric type is coerced, from the first
  column on; the first fatal error ends the run. A warning names the column and the
  row. The coercion of the other types, and of the properties of the base standard and
  of the extensions, whose schemas are not among the source files, is left out: such a
  column stays as it is.
\<close>

definition numeric_types :: "string list" where
  "numeric_types =
     [''int8'', ''uint8'', ''int16'', ''uint16'', ''int32'', ''uint32'', ''int64'', ''uint64'',
      ''float'', ''double'']"

fun coerce_columns :: "(string \<times> prop_schema) list \<Rightarrow> string list \<Rightarrow> 'g table \<Rightarrow> error + ('g table \<times> (string \<times> nat) list)" where
  "coerce_columns properties required [] = Inr ([], [])"
| "coerce_columns properties required ((n, c) # gdf) =
     (case (case map_of properties n of
              None \<Rightarrow> Inr (c, [])
            | Some sch \<Rightarrow>
                if type sch \<in> set numeric_types
                then coerce_numeric sch (n \<in> set required) 0 c
                else Inr (c, [])) of
        Inl e \<Rightarrow> Inl e
      | Inr (c', rows) \<Rightarrow>
          (case coerce_columns properties required gdf of
             Inl e \<Rightarrow> Inl e
           | Inr (out, warned) \<Rightarrow> Inr ((n, c') # out, map (Pair n) rows @ warned)))"

text \<open>
  Modelled from the spec: a run of \<open>convert_utils.convert\<close> up to step 9, for a
  descriptor and the properties and required names of its schema fragment.
\<close>

definition convert :: "'g descriptor \<Rightarrow> (string \<times> prop_schema) list \<Rightarrow> string list \<Rightarrow> 'g table \<Rightarrow> error + ('g table \<times> (string \<times> nat) list)" where
  "convert D properties required gdf =
     (case convert_table D gdf of
        Inl e \<Rightarrow> Inl e
      | Inr pruned \<Rightarrow> coerce_columns properties required pruned)"

fun aware_or_null :: "'g cell \<Rightarrow> bool" where
  "aware_or_null Null = True"
| "aware_or_null (Time z y m d) = (z = UTC)"
| "aware_or_null v = False"

section \<open>Example tables\<close>

text \<open>
  A table of three parcels as the Finnish source gives them. A geometry is stood for
  by the number of its square metres, so that the geometry library's repair is the
  identity and its area the number itself.
\<close>

definition fi_example :: "real table" where
  "fi_example =
     [(''geometry'', [Geom 25000, Geom 30000, Null]),
      (''VUOSI'', [Integer 2023, Integer 2023, Integer 2022]),
      (''PINTA_ALA'', [Float 0, Float (3 / 2), Float 0]),
      (''PERUSLOHKOTUNNUS'', [Str ''0010000001'', Str ''0010000002'', Str ''0010000003'']),
      (''LOHKONUMERO'', [Integer 1, Integer 2, Integer 3]),
      (''KASVIKOODI'', [Str ''1110'', Str ''1120'', Str ''1110'']),
      (''KASVIKOODI_SELITE_FI'', [Str ''Vehna'', Str ''Ohra'', Str ''Vehna''])]"

definition fi_example_migrated :: "real table" where
  "fi_example_migrated =
     fi_example @
     [(''determination_datetime'', [Time Naive 2023 1 1, Time Naive 2023 1 1, Time Naive 2022 1 1]),
      (''area'', [Float (5 / 2), Float (3 / 2), Null])]"

text \<open>
  A table of three field blocks as the Thuringian source gives them; the third is no
  agricultural area (its LF is not \<open>LF\<close>). \<open>de_th_example_out\<close> is the table after
  the stages up to column pruning.
\<close>

definition de_th_example :: "real table" where
  "de_th_example =
     [(''geometry'', [Geom 12000, Geom 8000, Geom 500]),
      (''BEZUGSJAHR'', [Integer 2024, Integer 2024, Integer 2024]),
      (''FBI'', [Str ''DETHLI0512340001'', Str ''DETHLI0512340002'', Str ''DETHLI0512340003'']),
      (''FBI_KURZ'', [Str ''0512340001'', Str ''0512340002'', Str ''0512340003'']),
      (''FB_FLAECHE'', [Float (6 / 5), Float (4 / 5), Float (1 / 20)]),
      (''FBI_VJ'', [Str ''DETHLI0512340001, DETHLI0512340009'', Str ''DETHLI0512340002'', Null]),
      (''FB_FL_VJ'', [Float (6 / 5), Float (4 / 5), Float 0]),
      (''TK10'', [Str ''5032-SO'', Str ''5032-SO'', Str ''5033-SW'']),
      (''AFO'', [Str ''J'', Str ''N'', Null]),
      (''LF'', [Str ''LF'', Str ''LF'', Str ''XX'']),
      (''BNK'', [Str ''AL'', Str ''GL'', Str ''NW'']),
      (''KOND_LE'', [Str ''N'', Str ''J'', Str ''N'']),
      (''AENDERUNG'', [Str ''Geaendert'', Str ''Unveraendert'', Str ''Neu'']),
      (''GEO_UPDAT'', [Str ''03.11.2023'', Str ''29.02.2024'', Null])]"

definition de_th_example_out :: "real table" where
  "de_th_example_out =
     [(''geometry'', [Geom 12000, Geom 8000]),
      (''valid_year'', [Integer 2024, Integer 2024]),
      (''flik'', [Str ''DETHLI0512340001'', Str ''DETHLI0512340002'']),
      (''id'', [Str ''0512340001'', Str ''0512340002'']),
      (''area'', [Float (6 / 5), Float (4 / 5)]),
      (''flik_last_year'', [Arr [''DETHLI0512340001'', ''DETHLI0512340009''], Arr [''DETHLI0512340002'']]),
      (''area_last_year'', [Float (6 / 5), Float (4 / 5)]),
      (''tk10'', [Str ''5032-SO'', Str ''5032-SO'']),
      (''afo'', [Bool True, Bool False]),
      (''bnk'', [Str ''AL'', Str ''GL'']),
      (''kond_le'', [Bool False, Bool True]),
      (''change'', [Bool True, Bool False]),
      (''determination_datetime'', [Time UTC 2023 11 3, Time UTC 2024 2 29])]"

text \<open>The Finnish example after the stages up to column pruning.\<close>

definition fi_example_out :: "real table" where
  "fi_example_out =
     [(''geometry'', [Geom 25000, Geom 30000, Null]),
      (''id'', [Str ''0010000001'', Str ''0010000002'', Str ''0010000003'']),
      (''block_id'', [Integer 1, Integer 2, Integer 3]),
      (''crop_code'', [Str ''1110'', Str ''1120'', Str ''1110'']),
      (''crop_name'', [Str ''Vehna'', Str ''Ohra'', Str ''Vehna'']),
      (''area'', [Float (5 / 2), Float (3 / 2), Null])]"

text \<open>
  Two parcels whose PINTA\_ALA is a column of integers, the first of them 2^53 + 1,
  and the table after the fi migration.
\<close>

definition fi_large :: "real table" where
  "fi_large =
     [(''geometry'', [Geom 25000, Geom 30000]),
      (''VUOSI'', [Integer 2023, Integer 2023]),
      (''PINTA_ALA'', [Integer 9007199254740993, Integer 0])]"

definition fi_large_migrated :: "real table" where
  "fi_large_migrated =
     fi_large @
     [(''determination_datetime'', [Time Naive 2023 1 1, Time Naive 2023 1 1]),
      (''area'', [Float 9007199254740992, Float 3])]"

text \<open>
  The Thuringian example with 0 as last year's area of the first field block, which the
  row filter keeps; the table after the global migration and after the row filter.
\<close>

definition de_th_zero :: "real table" where
  "de_th_zero = set_column de_th_example ''FB_FL_VJ'' [Float 0, Float (4 / 5), Float (6 / 5)]"

definition de_th_zero_migrated :: "real table" where
  "de_th_zero_migrated =
     set_column de_th_zero ''GEO_UPDAT'' [Time UTC 2023 11 3, Time UTC 2024 2 29, Null]"

definition de_th_zero_filtered :: "real table" where
  "de_th_zero_filtered = map (\<lambda>(n, c). (n, take 2 c)) de_th_zero_migrated"

section \<open>Properties\<close>

subsection \<open>The de\_th column migrations\<close>

lemma AFO_cell:
  "fill_cell (Bool False) (dict_get [(''J'', Bool True)] v) = Bool (v = Str ''J'')"
  by (cases v) auto

lemma AENDERUNG_cell:
  "dict_get [(''Geaendert'', Bool True), (''Unveraendert'', Bool False), (''Neu'', Null)] v =
     (if v = Str ''Geaendert'' then Bool True
      else if v = Str ''Unveraendert'' then Bool False else Null)"
  by (cases v) auto

text \<open>
  C2: the AENDERUNG migration turns the column Geaendert, Unveraendert, Neu into
  true, false, null, in this order.
\<close>

theorem C2_aenderung_example:
  "migrate_AENDERUNG [Str ''Geaendert'', Str ''Unveraendert'', Str ''Neu''] =
     [Bool True, Bool False, Null]"
  by (simp add: migrate_AENDERUNG_def series_map_def)

text \<open>
  C4: the de\_th targets declared boolean in the schema fragment are afo, kond\_le and
  change, fed by the source columns AFO, KOND\_LE and AENDERUNG. The AFO and KOND\_LE
  migrations send a value to true when it is the string J and to false otherwise (a
  missing value too), and every value the three migrations return is a boolean or null.
\<close>

theorem C4_boolean_columns_after_migration:
  "sources_of_type ''boolean'' = [''AFO'', ''KOND_LE'', ''AENDERUNG''] \<and>
   migrate_AFO column = map (\<lambda>v. Bool (v = Str ''J'')) column \<and>
   migrate_KOND_LE column = map (\<lambda>v. Bool (v = Str ''J'')) column \<and>
   list_all is_boolean_or_null (migrate_AFO column) \<and>
   list_all is_boolean_or_null (migrate_KOND_LE column) \<and>
   list_all is_boolean_or_null (migrate_AENDERUNG column)"
proof -
  have 1: "sources_of_type ''boolean'' = [''AFO'', ''KOND_LE'', ''AENDERUNG'']"
    by (simp add: sources_of_type_def de_th_MISSING_properties_def de_th_COLUMNS_def plain_def)
  have 2: "migrate_AFO column = map (\<lambda>v. Bool (v = Str ''J'')) column"
    by (simp add: migrate_AFO_def fillna_def series_map_def AFO_cell)
  have 3: "migrate_KOND_LE column = map (\<lambda>v. Bool (v = Str ''J'')) column"
    by (simp add: migrate_KOND_LE_def fillna_def series_map_def AFO_cell)
  have 4: "list_all is_boolean_or_null (migrate_AENDERUNG column)"
    by (auto simp: migrate_AENDERUNG_def series_map_def list_all_iff AENDERUNG_cell)
  show ?thesis using 1 2 3 4 by (simp add: list_all_iff)
qed

text \<open>
  C6: the AFO, KOND\_LE and AENDERUNG migrations return, for every column, a column as
  long as the one they are given. The FBI\_VJ migration does so for every column that
  pandas gives the \<open>.str\<close> accessor; for any other column (one whose values are all
  numbers, all booleans, all timestamps or all geometries) it raises
  \<open>AttributeError\<close> and returns no column. No declared migration returns a column of
  another length.
\<close>

theorem C6_column_migrations_keep_length:
  "list_all (\<lambda>(name, f). case f column of
       Inr changed \<Rightarrow> length changed = length column
     | Inl e \<Rightarrow> name = ''FBI_VJ'' \<and> e = AttributeError) de_th_COLUMN_MIGRATIONS \<and>
   map fst (de_th_COLUMN_MIGRATIONS :: (string \<times> ('g column \<Rightarrow> error + 'g column)) list) =
     [''AFO'', ''KOND_LE'', ''AENDERUNG'', ''FBI_VJ''] \<and>
   length (migrate_AFO column) = length column \<and>
   length (migrate_KOND_LE column) = length column \<and>
   length (migrate_AENDERUNG column) = length column \<and>
   migrate_FBI_VJ column =
     (if str_accessor column then Inr (map str_split_cell column) else Inl AttributeError) \<and>
   (case migrate_FBI_VJ column of
      Inr changed \<Rightarrow> length changed = length column
    | Inl e \<Rightarrow> e = AttributeError)"
  by (simp add: de_th_COLUMN_MIGRATIONS_def returns_def migrate_AFO_def migrate_KOND_LE_def
      migrate_AENDERUNG_def migrate_FBI_VJ_def fillna_def series_map_def str_split_def)

theorem C6_column_migrations_keep_length_witness:
  "migrate_FBI_VJ [Str ''DETHLI0512340001, DETHLI0512340009'', Null, Integer 7 :: real cell] =
     Inr [Arr [''DETHLI0512340001'', ''DETHLI0512340009''], Null, Null] \<and>
   length [Arr [''DETHLI0512340001'', ''DETHLI0512340009''], Null, Null :: real cell] =
     length [Str ''DETHLI0512340001, DETHLI0512340009'', Null, Integer 7 :: real cell]"
proof -
  have "migrate_FBI_VJ [Str ''DETHLI0512340001, DETHLI0512340009'', Null, Integer 7 :: real cell] =
     Inr [Arr [''DETHLI0512340001'', ''DETHLI0512340009''], Null, Null]"
    by code_simp
  then show ?thesis
    using C6_column_migrations_keep_length
      [of "[Str ''DETHLI0512340001, DETHLI0512340009'', Null, Integer 7 :: real cell]"]
    by simp
qed

theorem C6_integer_column_counterexample:
  "migrate_FBI_VJ [Integer 1, Integer 2, Integer 3 :: real cell] = Inl AttributeError \<and>
   \<not> (\<exists>changed. migrate_FBI_VJ [Integer 1, Integer 2, Integer 3 :: real cell] = Inr changed \<and>
          length changed = length [Integer 1, Integer 2, Integer 3 :: real cell])"
proof -
  have "migrate_FBI_VJ [Integer 1, Integer 2, Integer 3 :: real cell] = Inl AttributeError"
    by code_simp
  then show ?thesis by simp
qed

text \<open>
  C10: the AENDERUNG migration sends every value other than Geaendert and
  Unveraendert to null, a missing value and any code that is not a key of the dict
  alike, while the AFO and KOND\_LE migrations send every value other than J to false.
\<close>

theorem C10_aenderung_unmapped_is_null:
  "migrate_AENDERUNG column =
     map (\<lambda>v. if v = Str ''Geaendert'' then Bool True
              else if v = Str ''Unveraendert'' then Bool False else Null) column \<and>
   migrate_AFO column = map (\<lambda>v. if v = Str ''J'' then Bool True else Bool False) column \<and>
   migrate_KOND_LE column = map (\<lambda>v. if v = Str ''J'' then Bool True else Bool False) column \<and>
   migrate_AENDERUNG [Null, Str ''Neu'', Str ''X'', Integer 1] = [Null, Null, Null, Null] \<and>
   migrate_AFO [Null, Str ''N'', Str ''X'', Integer 1] = [Bool False, Bool False, Bool False, Bool False]"
proof -
  have 1: "migrate_AENDERUNG column =
     map (\<lambda>v. if v = Str ''Geaendert'' then Bool True
              else if v = Str ''Unveraendert'' then Bool False else Null) column"
    by (simp add: migrate_AENDERUNG_def series_map_def AENDERUNG_cell)
  have 2: "migrate_AFO column = map (\<lambda>v. if v = Str ''J'' then Bool True else Bool False) column"
    by (simp add: migrate_AFO_def fillna_def series_map_def AFO_cell)
  have 3: "migrate_KOND_LE column = map (\<lambda>v. if v = Str ''J'' then Bool True else Bool False) column"
    by (simp add: migrate_KOND_LE_def fillna_def series_map_def AFO_cell)
  have 4: "migrate_AENDERUNG [Null, Str ''Neu'', Str ''X'', Integer 1] = [Null, Null, Null, Null]"
    by (simp add: migrate_AENDERUNG_def series_map_def)
  have 5: "migrate_AFO [Null, Str ''N'', Str ''X'', Integer 1] =
      [Bool False, Bool False, Bool False, Bool False]"
    by (simp add: migrate_AFO_def fillna_def series_map_def)
  show ?thesis using 1 2 3 4 5 by blast
qed

subsection \<open>Tables\<close>

lemma get_set_column:
  "get_column (set_column gdf n c) m = (if m = n then Inr c else get_column gdf m)"
  by (induction gdf) (auto simp: get_column_def)

lemma column_names_set_column:
  "column_names (set_column gdf n c) =
     (if n \<in> set (column_names gdf) then column_names gdf else column_names gdf @ [n])"
  by (induction gdf) (force simp: column_names_def)+

subsection \<open>Timestamps\<close>

lemma stamp_utc: "stamp True r = Inr t \<Longrightarrow> aware_or_null t"
  by (auto simp: stamp_def split: option.splits if_splits)

lemma to_datetime_cell_utc: "to_datetime_cell fmt True v = Inr t \<Longrightarrow> aware_or_null t"
  by (cases v) (auto dest: stamp_utc split: if_splits)

lemma to_datetime_cells_utc:
  "to_datetime_cells fmt True column = Inr ts \<Longrightarrow> list_all aware_or_null ts"
  by (induction column arbitrary: ts) (auto split: sum.splits dest: to_datetime_cell_utc)

lemma to_datetime_utc:
  "to_datetime fmt True column = Inr ts \<Longrightarrow> list_all aware_or_null ts"
  by (auto simp: to_datetime_def split: sum.splits if_splits dest: to_datetime_cells_utc)

text \<open>
  What the de\_th migration leaves in GEO\_UPDAT is missing or an instant in UTC.
\<close>

lemma de_th_migrate_utc:
  assumes "de_th_migrate gdf = Inr out"
  shows "\<exists>stamps. get_column out ''GEO_UPDAT'' = Inr stamps \<and> list_all aware_or_null stamps"
  using assms
  by (auto simp: de_th_migrate_def get_set_column split: sum.splits dest: to_datetime_utc)

lemma fi_example_run: "fi_migrate (\<lambda>g. g) (\<lambda>g. g) fi_example = Inr fi_example_migrated"
  by code_simp

text \<open>
  C1: the fi migration calls \<open>pd.to_datetime\<close> without \<open>utc=True\<close>, so the
  determination\_datetime column it makes from the years of VUOSI holds
  timezone-naive timestamps, not instants with a timezone: here the first of January
  of 2023, 2023 and 2022, none of them timezone-aware.
\<close>

theorem C1_fi_determination_datetime_is_naive:
  "fi_migrate (\<lambda>g. g) (\<lambda>g. g) fi_example = Inr fi_example_migrated \<and>
   get_column fi_example ''VUOSI'' = Inr [Integer 2023, Integer 2023, Integer 2022] \<and>
   get_column fi_example_migrated ''determination_datetime'' =
     Inr [Time Naive 2023 1 1, Time Naive 2023 1 1, Time Naive 2022 1 1] \<and>
   \<not> list_ex aware_or_null [Time Naive 2023 1 1, Time Naive 2023 1 1, Time Naive 2022 1 1 :: real cell]"
proof -
  have "get_column fi_example ''VUOSI'' = Inr [Integer 2023, Integer 2023, Integer 2022]"
    by (simp add: fi_example_def get_column_def)
  moreover have "get_column fi_example_migrated ''determination_datetime'' =
     Inr [Time Naive 2023 1 1, Time Naive 2023 1 1, Time Naive 2022 1 1]"
    by (simp add: fi_example_migrated_def fi_example_def get_column_def)
  ultimately show ?thesis
    using fi_example_run by simp
qed

subsection \<open>The area of a Finnish parcel\<close>

lemma all_cells_rel:
  "all_cells f column = Inr ws \<Longrightarrow> list_all2 (\<lambda>v w. f v = Inr w) column ws"
  by (induction column arbitrary: ws) (auto split: sum.splits)

lemma make_valid_cell_area:
  "make_valid_cell valid g = Inr r \<Longrightarrow> area_cell area_of r = Inr a \<Longrightarrow>
   div_cell k a = (case g of Geom x \<Rightarrow> Float (area_of (valid x) / k) | _ \<Rightarrow> Null)"
  by (cases g) auto

lemma pick_area:
  "list_all2 (\<lambda>v w. make_valid_cell valid v = Inr w) geometry repaired \<Longrightarrow>
   list_all2 (\<lambda>v w. area_cell area_of v = Inr w) repaired areas \<Longrightarrow>
   pick (map is_zero pinta) (map (div_cell k) areas) (map h pinta) =
     map (\<lambda>(p, g). if is_zero p
                    then (case g of Geom x \<Rightarrow> Float (area_of (valid x) / k) | _ \<Rightarrow> Null)
                    else h p) (zip pinta geometry)"
proof (induction pinta arbitrary: geometry repaired areas)
  case Nil
  then show ?case by simp
next
  case (Cons p pinta)
  show ?case
  proof (cases geometry)
    case Nil
    with Cons.prems show ?thesis by simp
  next
    case (Cons g gs)
    with Cons.prems obtain r rs a as where
      r: "repaired = r # rs" "make_valid_cell valid g = Inr r"
        "list_all2 (\<lambda>v w. make_valid_cell valid v = Inr w) gs rs"
      and a: "areas = a # as" "area_cell area_of r = Inr a"
        "list_all2 (\<lambda>v w. area_cell area_of v = Inr w) rs as"
      by (auto simp: list_all2_Cons1)
    have "pick (map is_zero pinta) (map (div_cell k) as) (map h pinta) =
        map (\<lambda>(p, g). if is_zero p
                    then (case g of Geom x \<Rightarrow> Float (area_of (valid x) / k) | _ \<Rightarrow> Null)
                    else h p) (zip pinta gs)"
      using Cons.IH [OF r(3) a(3)] .
    then show ?thesis
      using Cons r a make_valid_cell_area [OF r(2) a(2), of k] by simp
  qed
qed

lemma np_where_pick:
  "np_where cond x y = Inr out \<Longrightarrow>
   out = pick cond x
     (map (\<lambda>p. if dtype_of y = dt_integer \<or> dtype_of y = dt_bool then as_float64 p else p) y)"
  by (auto simp: np_where_def split: if_splits)

lemma float64_of_int_exact: "\<bar>n\<bar> < 2 ^ 53 \<Longrightarrow> float64_of_int n = of_int n"
  by (auto simp: float64_of_int_def round_int_def)

text \<open>
  C9: when the fi migration returns, the area column it sets holds, row by row: where
  PINTA\_ALA is 0, the area of the row's repaired geometry divided by 10000 (missing
  when the row has no geometry); elsewhere the value of PINTA\_ALA, as it is when
  PINTA\_ALA is a column of floats or of Python values, and as the nearest float64 when
  PINTA\_ALA is a column of integers or booleans. The float64 of an integer below 2^53
  in size is the integer.
\<close>

theorem C9_fi_area:
  assumes "fi_migrate valid area_of gdf = Inr out"
  shows "(\<exists>pinta_ala geometry.
           get_column gdf ''PINTA_ALA'' = Inr pinta_ala \<and>
           get_column gdf ''geometry'' = Inr geometry \<and>
           get_column out ''area'' =
             Inr (map (\<lambda>(p, g). if is_zero p
                    then (case g of Geom x \<Rightarrow> Float (area_of (valid x) / 10000) | _ \<Rightarrow> Null)
                    else if dtype_of pinta_ala = dt_integer \<or> dtype_of pinta_ala = dt_bool
                         then as_float64 p else p) (zip pinta_ala geometry))) \<and>
         (\<forall>n. \<bar>n\<bar> < 2 ^ 53 \<longrightarrow> as_float64 (Integer n :: 'g cell) = Float (of_int n))"
proof -
  from assms obtain vuosi stamps geometry repaired pinta_ala areas area where
    p: "get_column gdf ''PINTA_ALA'' = Inr pinta_ala"
    and g: "get_column gdf ''geometry'' = Inr geometry"
    and v: "make_valid valid geometry = Inr repaired"
    and a: "all_cells (area_cell area_of) repaired = Inr areas"
    and w: "np_where (eq_zero pinta_ala) (div_column areas 10000) pinta_ala = Inr area"
    and o: "get_column out ''area'' = Inr area"
    by (auto simp: fi_migrate_def Let_def get_set_column gdf_area_def split: sum.splits)
  have "area = map (\<lambda>(p, g). if is_zero p
                    then (case g of Geom x \<Rightarrow> Float (area_of (valid x) / 10000) | _ \<Rightarrow> Null)
                    else if dtype_of pinta_ala = dt_integer \<or> dtype_of pinta_ala = dt_bool
                         then as_float64 p else p) (zip pinta_ala geometry)"
    using np_where_pick [OF w]
      pick_area [OF all_cells_rel [OF v [unfolded make_valid_def]] all_cells_rel [OF a],
        of pinta_ala 10000
          "\<lambda>p. if dtype_of pinta_ala = dt_integer \<or> dtype_of pinta_ala = dt_bool
               then as_float64 p else p"]
    by (simp add: eq_zero_def div_column_def)
  with p g o show ?thesis
    by (auto simp: float64_of_int_exact)
qed

theorem C9_fi_area_witness:
  "fi_migrate (\<lambda>g. g) (\<lambda>g. g) fi_example = Inr fi_example_migrated \<and>
   get_column fi_example ''PINTA_ALA'' = Inr [Float 0, Float (3 / 2), Float 0] \<and>
   get_column fi_example_migrated ''area'' = Inr [Float (5 / 2), Float (3 / 2), Null] \<and>
   \<bar>5 :: int\<bar> < 2 ^ 53 \<and> as_float64 (Integer 5 :: real cell) = Float 5"
proof -
  have run: "fi_migrate (\<lambda>g. g) (\<lambda>g. g) fi_example = Inr fi_example_migrated"
    by (rule fi_example_run)
  have 1: "get_column fi_example ''PINTA_ALA'' = Inr [Float 0, Float (3 / 2), Float 0]"
    by (simp add: fi_example_def get_column_def)
  have 2: "get_column fi_example_migrated ''area'' = Inr [Float (5 / 2), Float (3 / 2), Null]"
    by (simp add: fi_example_migrated_def fi_example_def get_column_def)
  have 3: "\<bar>5 :: int\<bar> < 2 ^ 53"
    by simp
  from C9_fi_area [OF run] 3 have "as_float64 (Integer 5 :: real cell) = Float 5"
    by fastforce
  with run 1 2 3 show ?thesis by simp
qed

text \<open>
  On a column of integers the area of a row is not always the value of PINTA\_ALA: the
  integer 2^53 + 1 is not 0 and the area of its row is the float 2^53.
\<close>

theorem C9_large_integer_counterexample:
  "fi_migrate (\<lambda>g. g) (\<lambda>g. g) fi_large = Inr fi_large_migrated \<and>
   get_column fi_large ''PINTA_ALA'' = Inr [Integer 9007199254740993, Integer 0] \<and>
   \<not> is_zero (Integer 9007199254740993 :: real cell) \<and>
   get_column fi_large_migrated ''area'' = Inr [Float 9007199254740992, Float 3] \<and>
   number_of (Float 9007199254740992 :: real cell) \<noteq> number_of (Integer 9007199254740993 :: real cell)"
proof -
  have "fi_migrate (\<lambda>g. g) (\<lambda>g. g) fi_large = Inr fi_large_migrated"
    by code_simp
  then show ?thesis
    by (simp add: fi_large_migrated_def fi_large_def get_column_def)
qed

subsection \<open>The stages of the pipeline\<close>

lemma de_th_example_run: "convert_table de_th de_th_example = Inr de_th_example_out"
  by code_simp

lemma select_rows_none: "select_rows [False] c = []"
  by (cases c) simp_all

lemma select_rows_LF: "select_rows [True, True, False] c = take 2 c"
proof (cases c)
  case Nil
  then show ?thesis by simp
next
  case (Cons x xs)
  then show ?thesis
    by (cases xs) (simp_all add: numeral_2_eq_2 select_rows_none)
qed

lemma column_names_prune:
  "set (column_names (prune_columns cmap gdf)) \<subseteq> set (targets cmap)"
  by (auto simp: column_names_def prune_columns_def)

lemma column_names_project:
  "project cmap gdf = Inr out \<Longrightarrow> set (column_names out) \<subseteq> set (targets cmap)"
  using column_names_prune by (auto simp: project_def split: sum.splits)

lemma column_names_convert_table:
  "convert_table D gdf = Inr out \<Longrightarrow> set (column_names out) \<subseteq> set (targets (columns D))"
  by (auto simp: convert_table_def split: sum.splits option.splits dest!: column_names_project)

lemma de_th_targets:
  "targets (single de_th_COLUMNS) =
     [''geometry'', ''valid_year'', ''flik'', ''id'', ''area'', ''flik_last_year'',
      ''area_last_year'', ''tk10'', ''afo'', ''bnk'', ''kond_le'', ''change'',
      ''determination_datetime'']"
  by (simp add: targets_def single_def de_th_COLUMNS_def)

lemma fi_targets:
  "targets (single fi_COLUMNS) =
     [''geometry'', ''id'', ''block_id'', ''area'', ''crop_code'', ''crop_name'']"
  by (simp add: targets_def single_def fi_COLUMNS_def)

text \<open>
  C3: on a table whose LF column is LF, LF, XX the de\_th row filter keeps the first
  two rows of every column, in their order, and drops the third. LF is no value of
  the de\_th column map, so no table that the stages up to column pruning return has
  a column LF.
\<close>

theorem C3_lf_filter_and_pruning:
  "(map_of gdf ''LF'' = Some [Str ''LF'', Str ''LF'', Str ''XX''] \<longrightarrow>
      run_filters de_th_COLUMN_FILTERS gdf = Inr (map (\<lambda>(n, c). (n, take 2 c)) gdf)) \<and>
   ''LF'' \<notin> set (map snd de_th_COLUMNS) \<and>
   (convert_table de_th gdf = Inr out \<longrightarrow> ''LF'' \<notin> set (column_names out))"
proof -
  have 1: "map_of gdf ''LF'' = Some [Str ''LF'', Str ''LF'', Str ''XX''] \<longrightarrow>
      run_filters de_th_COLUMN_FILTERS gdf = Inr (map (\<lambda>(n, c). (n, take 2 c)) gdf)"
    by (simp add: de_th_COLUMN_FILTERS_def filter_LF_def eq_str_def select_rows_LF)
  have 2: "''LF'' \<notin> set (map snd de_th_COLUMNS)"
    by (simp add: de_th_COLUMNS_def)
  have 3: "convert_table de_th gdf = Inr out \<longrightarrow> ''LF'' \<notin> set (column_names out)"
  proof
    assume "convert_table de_th gdf = Inr out"
    then have "set (column_names out) \<subseteq> set (targets (columns (de_th :: 'a descriptor)))"
      by (rule column_names_convert_table)
    then show "''LF'' \<notin> set (column_names out)"
      by (auto simp: de_th_def de_th_targets)
  qed
  show ?thesis using 1 2 3 by blast
qed

text \<open>
  C7: every column of a table that the stages up to column pruning return for the fi
  descriptor has one of the six target names of the fi column map. The column
  determination\_datetime, which the global migration has made and which is no value
  of the column map, is not among them.
\<close>

theorem C7_fi_final_columns:
  assumes "convert_table (fi valid area_of) gdf = Inr out"
  shows "set (column_names out) \<subseteq>
           set [''geometry'', ''id'', ''block_id'', ''area'', ''crop_code'', ''crop_name''] \<and>
         ''determination_datetime'' \<notin> set (column_names out) \<and>
         ''determination_datetime'' \<notin> set (map snd fi_COLUMNS) \<and>
         (\<exists>migrated. fi_migrate valid area_of gdf = Inr migrated \<and>
            ''determination_datetime'' \<in> set (column_names migrated))"
proof -
  have "set (column_names out) \<subseteq> set (targets (columns (fi valid area_of)))"
    using assms by (rule column_names_convert_table)
  then have 1: "set (column_names out) \<subseteq>
           set [''geometry'', ''id'', ''block_id'', ''area'', ''crop_code'', ''crop_name'']"
    by (simp add: fi_def fi_targets)
  then have 2: "''determination_datetime'' \<notin> set (column_names out)"
    by auto
  have 3: "''determination_datetime'' \<notin> set (map snd fi_COLUMNS)"
    by (simp add: fi_COLUMNS_def)
  obtain migrated where m: "fi_migrate valid area_of gdf = Inr migrated"
    using assms by (auto simp: convert_table_def fi_def split: sum.splits)
  then have "''determination_datetime'' \<in> set (column_names migrated)"
    by (auto simp: fi_migrate_def Let_def column_names_set_column split: sum.splits if_splits)
  with 1 2 3 m show ?thesis by blast
qed

lemma fi_example_convert: "convert_table (fi (\<lambda>g. g) (\<lambda>g. g)) fi_example = Inr fi_example_out"
  by code_simp

theorem C3_lf_filter_and_pruning_witness:
  "map_of de_th_example ''LF'' = Some [Str ''LF'', Str ''LF'', Str ''XX''] \<and>
   run_filters de_th_COLUMN_FILTERS de_th_example =
     Inr (map (\<lambda>(n, c). (n, take 2 c)) de_th_example) \<and>
   convert_table de_th de_th_example = Inr de_th_example_out \<and>
   ''LF'' \<notin> set (column_names de_th_example_out)"
proof -
  have 1: "map_of de_th_example ''LF'' = Some [Str ''LF'', Str ''LF'', Str ''XX'']"
    by (simp add: de_th_example_def)
  have 2: "convert_table de_th de_th_example = Inr de_th_example_out"
    by (rule de_th_example_run)
  show ?thesis
    using 1 2 C3_lf_filter_and_pruning [of de_th_example de_th_example_out] by simp
qed

theorem C7_fi_final_columns_witness:
  "convert_table (fi (\<lambda>g. g) (\<lambda>g. g)) fi_example = Inr fi_example_out \<and>
   column_names fi_example_out =
     [''geometry'', ''id'', ''block_id'', ''crop_code'', ''crop_name'', ''area''] \<and>
   ''determination_datetime'' \<notin> set (column_names fi_example_out) \<and>
   fi_migrate (\<lambda>g. g) (\<lambda>g. g) fi_example = Inr fi_example_migrated \<and>
   ''determination_datetime'' \<in> set (column_names fi_example_migrated)"
proof -
  have run: "convert_table (fi (\<lambda>g. g) (\<lambda>g. g)) fi_example = Inr fi_example_out"
    by (rule fi_example_convert)
  have names: "column_names fi_example_out =
     [''geometry'', ''id'', ''block_id'', ''crop_code'', ''crop_name'', ''area'']"
    by (simp add: fi_example_out_def column_names_def)
  have "''determination_datetime'' \<in> set (column_names fi_example_migrated)"
    by (simp add: fi_example_migrated_def fi_example_def column_names_def)
  then show ?thesis
    using run names C7_fi_final_columns [OF run] fi_example_run by simp
qed

subsection \<open>Numeric coercion\<close>

lemma not_conforms_zero:
  "exclusiveMinimum sch = Some 0 \<Longrightarrow> number_of v = Some 0 \<Longrightarrow> \<not> conforms sch v"
  by (simp add: conforms_def in_range_def)

lemma coerce_required_fails:
  "v = Null \<or> \<not> conforms sch v \<Longrightarrow>
   coerce_numeric sch True row (pre @ v # post) = Inl CoercionError"
  by (induction pre arbitrary: row) (auto split: sum.splits)

lemma coerce_numeric_error:
  "coerce_numeric sch required row column = Inl e \<Longrightarrow> e = CoercionError"
  by (induction column arbitrary: row) (auto split: sum.splits if_splits)

lemma coerce_optional_values:
  "\<exists>warned. coerce_numeric sch False row column =
     Inr (map (\<lambda>v. if conforms sch v then v else Null) column, warned)"
proof (induction column arbitrary: row)
  case Nil
  then show ?case by simp
next
  case (Cons v vs)
  from Cons [of "Suc row"] obtain warned where
    "coerce_numeric sch False (Suc row) vs =
       Inr (map (\<lambda>v. if conforms sch v then v else Null) vs, warned)" by blast
  then show ?case by (cases "v = Null") auto
qed

lemma coerce_optional_warns:
  "coerce_numeric sch False row (pre @ v # post) = Inr (ws, warned) \<Longrightarrow>
   v \<noteq> Null \<Longrightarrow> \<not> conforms sch v \<Longrightarrow> row + length pre \<in> set warned"
proof (induction pre arbitrary: row ws warned)
  case Nil
  then show ?case by (auto split: sum.splits)
next
  case (Cons p pre)
  from Cons.prems(1) obtain ws' warned' where
    rest: "coerce_numeric sch False (Suc row) (pre @ v # post) = Inr (ws', warned')"
    by (cases "coerce_numeric sch False (Suc row) (pre @ v # post)") auto
  with Cons.prems(1) have sub: "set warned' \<subseteq> set warned"
    by (auto split: if_splits)
  from Cons.IH [OF rest Cons.prems(2,3)] sub show ?case by auto
qed

lemma coerce_optional_row:
  assumes "coerce_numeric sch False 0 column = Inr (changed, rows)"
    and "i < length column" and "column ! i \<noteq> Null" and "\<not> conforms sch (column ! i)"
  shows "changed ! i = Null \<and> i \<in> set rows"
proof -
  have split: "column = take i column @ column ! i # drop (Suc i) column"
    using assms(2) by (simp add: id_take_nth_drop)
  from coerce_optional_values [of sch 0 column] assms(1)
  have "changed = map (\<lambda>v. if conforms sch v then v else Null) column" by auto
  then have "changed ! i = Null"
    using assms(2,4) by simp
  moreover have "0 + length (take i column) \<in> set rows"
    using assms(1) split coerce_optional_warns [of sch 0 "take i column" "column ! i"
      "drop (Suc i) column" changed rows] assms(3,4)
    by simp
  ultimately show ?thesis using assms(2) by simp
qed

lemma coerce_columns_error:
  "coerce_columns properties required gdf = Inl e \<Longrightarrow> e = CoercionError"
  by (induction gdf arbitrary: e)
     (auto split: sum.splits option.splits if_splits prod.splits dest: coerce_numeric_error)

lemma coerce_columns_fails:
  assumes "(n, c) \<in> set gdf" and "map_of properties n = Some sch"
    and "type sch \<in> set numeric_types" and "n \<in> set required"
    and "v \<in> set c" and "v = Null \<or> \<not> conforms sch v"
  shows "coerce_columns properties required gdf = Inl CoercionError"
proof -
  from assms(5) obtain pre post where "c = pre @ v # post"
    by (auto simp: in_set_conv_decomp)
  then have bad: "coerce_numeric sch True 0 c = Inl CoercionError"
    using assms(6) by (simp add: coerce_required_fails)
  have "\<exists>e. coerce_columns properties required gdf = Inl e"
    using assms(1)
  proof (induction gdf)
    case Nil
    then show ?case by simp
  next
    case (Cons x gdf)
    show ?case
    proof (cases "x = (n, c)")
      case True
      then show ?thesis using bad assms(2,3,4) by simp
    next
      case False
      with Cons.prems have "(n, c) \<in> set gdf" by simp
      from Cons.IH [OF this] obtain e where "coerce_columns properties required gdf = Inl e"
        by blast
      then show ?thesis
        by (cases x) (auto split: sum.splits option.splits prod.splits)
    qed
  qed
  then show ?thesis by (auto dest: coerce_columns_error)
qed

lemma coerce_columns_optional:
  assumes "coerce_columns properties required gdf = Inr (out, warned)"
    and "(n, c) \<in> set gdf" and "map_of properties n = Some sch"
    and "type sch \<in> set numeric_types" and "n \<notin> set required"
  shows "\<exists>changed rows. (n, changed) \<in> set out \<and>
           coerce_numeric sch False 0 c = Inr (changed, rows) \<and>
           Pair n ` set rows \<subseteq> set warned"
  using assms(1,2)
proof (induction gdf arbitrary: out warned)
  case Nil
  then show ?case by simp
next
  case (Cons x gdf)
  obtain m d where x: "x = (m, d)" by (cases x)
  from Cons.prems(1) x obtain d' rows' out' warned' where
    head: "(case map_of properties m of
              None \<Rightarrow> Inr (d, [])
            | Some sch \<Rightarrow>
                if type sch \<in> set numeric_types
                then coerce_numeric sch (m \<in> set required) 0 d
                else Inr (d, [])) = Inr (d', rows')"
    and rest: "coerce_columns properties required gdf = Inr (out', warned')"
    and out: "out = (m, d') # out'" and warned: "warned = map (Pair m) rows' @ warned'"
    by (auto split: sum.splits prod.splits)
  show ?case
  proof (cases "x = (n, c)")
    case True
    with x head assms(3,4,5) have "coerce_numeric sch False 0 c = Inr (d', rows')"
      by simp
    with True x out warned show ?thesis by auto
  next
    case False
    with Cons.prems(2) have "(n, c) \<in> set gdf" by simp
    from Cons.IH [OF rest this] obtain changed rows where
      "(n, changed) \<in> set out'" "coerce_numeric sch False 0 c = Inr (changed, rows)"
      "Pair n ` set rows \<subseteq> set warned'" by blast
    then have "(n, changed) \<in> set out \<and> coerce_numeric sch False 0 c = Inr (changed, rows) \<and>
        Pair n ` set rows \<subseteq> set warned"
      using out warned by auto
    then show ?thesis by blast
  qed
qed

subsection \<open>From the source column to the coerced column\<close>

lemma map_of_set_column:
  "map_of (set_column gdf n c) m = (if m = n then Some c else map_of gdf m)"
  by (induction gdf) auto

lemma run_column_migrations_frame:
  "run_column_migrations ms gdf = Inr out \<Longrightarrow> name \<notin> set (map fst ms) \<Longrightarrow>
   map_of out name = map_of gdf name"
  by (induction ms arbitrary: gdf)
     (auto simp: map_of_set_column split: option.splits sum.splits if_splits)

lemma rename_columns_target:
  assumes "rename_columns cmap gdf = Inr renamed" and "map_of gdf source = Some c"
    and "map_of cmap source = Some ts" and "t \<in> set ts"
  shows "(t, c) \<in> set renamed"
proof -
  from assms(2) have "(source, c) \<in> set gdf" by (rule map_of_SomeD)
  moreover from assms(1) have "renamed = concat (map (\<lambda>(n, c).
             case map_of cmap n of None \<Rightarrow> [(n, c)] | Some ts \<Rightarrow> map (\<lambda>t. (t, c)) ts) gdf)"
    by (auto simp: rename_columns_def split: if_splits)
  ultimately show ?thesis using assms(3,4) by force
qed

lemma de_th_area_last_year:
  assumes "run_column_migrations de_th_COLUMN_MIGRATIONS filtered = Inr changed"
    and "project (single de_th_COLUMNS) changed = Inr pruned"
    and "get_column filtered ''FB_FL_VJ'' = Inr column"
  shows "(''area_last_year'', column) \<in> set pruned"
proof -
  from assms(3) have "map_of filtered ''FB_FL_VJ'' = Some column"
    by (auto simp: get_column_def split: option.splits)
  moreover have "''FB_FL_VJ'' \<notin> set (map fst (de_th_COLUMN_MIGRATIONS :: (string \<times> ('a column \<Rightarrow> error + 'a column)) list))"
    by (simp add: de_th_COLUMN_MIGRATIONS_def)
  ultimately have c: "map_of changed ''FB_FL_VJ'' = Some column"
    using run_column_migrations_frame [OF assms(1)] by simp
  from assms(2) obtain renamed where
    r: "rename_columns (single de_th_COLUMNS) changed = Inr renamed"
    and p: "pruned = prune_columns (single de_th_COLUMNS) renamed"
    by (auto simp: project_def split: sum.splits)
  have "map_of (single de_th_COLUMNS) ''FB_FL_VJ'' = Some [''area_last_year'']"
    by (simp add: single_def de_th_COLUMNS_def)
  from rename_columns_target [OF r c this] have "(''area_last_year'', column) \<in> set renamed"
    by simp
  then show ?thesis
    by (simp add: p prune_columns_def de_th_targets)
qed


text \<open>
  C5: FB\_FL\_VJ is renamed to area\_last\_year, which the schema fragment requires and
  declares as a float above 0 and up to 100000. When a row that the row filter keeps
  holds 0 in FB\_FL\_VJ, the run fails: with the error of a stage before the coercion,
  or else with a fatal coercion error. When area\_last\_year is taken out of the
  required properties and the run returns, the value of that row is null in the
  output and the row is among the warnings.
\<close>

theorem C5_area_last_year_zero:
  assumes "de_th_migrate gdf = Inr migrated"
    and "run_filters de_th_COLUMN_FILTERS migrated = Inr filtered"
    and "get_column filtered ''FB_FL_VJ'' = Inr column"
    and "i < length column" and "number_of (column ! i) = Some 0"
  shows "map_of de_th_COLUMNS ''FB_FL_VJ'' = Some ''area_last_year'' \<and>
         ''area_last_year'' \<in> set de_th_MISSING_required \<and>
         map_of de_th_MISSING_properties ''area_last_year'' =
           Some \<lparr>type = ''float'', minimum = None, exclusiveMinimum = Some 0,
                 maximum = Some 100000, items = None\<rparr> \<and>
         convert de_th de_th_MISSING_properties de_th_MISSING_required gdf =
           (case convert_table de_th gdf of Inl e \<Rightarrow> Inl e | Inr pruned \<Rightarrow> Inl CoercionError) \<and>
         (convert de_th de_th_MISSING_properties
              (remove1 ''area_last_year'' de_th_MISSING_required) gdf = Inr (out, warned) \<longrightarrow>
            (\<exists>changed. (''area_last_year'', changed) \<in> set out \<and> changed ! i = Null \<and>
               (''area_last_year'', i) \<in> set warned))"
proof -
  define sch where "sch = \<lparr>type = ''float'', minimum = None, exclusiveMinimum = Some 0,
     maximum = Some (100000::real), items = None\<rparr>"
  have s: "map_of de_th_MISSING_properties ''area_last_year'' = Some sch"
    and num: "type sch \<in> set numeric_types" and ex: "exclusiveMinimum sch = Some 0"
    by (simp_all add: sch_def de_th_MISSING_properties_def numeric_types_def)
  have 1: "map_of de_th_COLUMNS ''FB_FL_VJ'' = Some ''area_last_year''"
    by (simp add: de_th_COLUMNS_def)
  have 2: "''area_last_year'' \<in> set de_th_MISSING_required"
    by (simp add: de_th_MISSING_required_def)
  have bad: "\<not> conforms sch (column ! i)" and present: "column ! i \<noteq> Null"
    using not_conforms_zero [OF ex assms(5)] assms(5) by auto
  have mem: "column ! i \<in> set column"
    using assms(4) by simp
  have pruned_has: "(''area_last_year'', column) \<in> set pruned"
    if "convert_table de_th gdf = Inr pruned" for pruned
  proof -
    from that assms(1,2) obtain changed where
      "run_column_migrations de_th_COLUMN_MIGRATIONS filtered = Inr changed"
      "project (single de_th_COLUMNS) changed = Inr pruned"
      by (auto simp: convert_table_def de_th_def split: sum.splits)
    then show ?thesis using assms(3) by (rule de_th_area_last_year)
  qed
  have 3: "convert de_th de_th_MISSING_properties de_th_MISSING_required gdf =
           (case convert_table de_th gdf of Inl e \<Rightarrow> Inl e | Inr pruned \<Rightarrow> Inl CoercionError)"
  proof (cases "convert_table de_th gdf")
    case (Inl e)
    then show ?thesis by (simp add: convert_def)
  next
    case (Inr pruned)
    from coerce_columns_fails [OF pruned_has [OF Inr] s num 2 mem] bad Inr
    show ?thesis by (simp add: convert_def)
  qed
  have 4: "\<exists>changed. (''area_last_year'', changed) \<in> set out \<and> changed ! i = Null \<and>
               (''area_last_year'', i) \<in> set warned"
    if run: "convert de_th de_th_MISSING_properties
              (remove1 ''area_last_year'' de_th_MISSING_required) gdf = Inr (out, warned)"
  proof -
    from run obtain pruned where p: "convert_table de_th gdf = Inr pruned"
      and c: "coerce_columns de_th_MISSING_properties
                (remove1 ''area_last_year'' de_th_MISSING_required) pruned = Inr (out, warned)"
      by (auto simp: convert_def split: sum.splits)
    have opt: "''area_last_year'' \<notin> set (remove1 ''area_last_year'' de_th_MISSING_required)"
      by (simp add: de_th_MISSING_required_def)
    from coerce_columns_optional [OF c pruned_has [OF p] s num opt] obtain changed rows where
      o: "(''area_last_year'', changed) \<in> set out"
      and n: "coerce_numeric sch False 0 column = Inr (changed, rows)"
      and w: "Pair ''area_last_year'' ` set rows \<subseteq> set warned" by blast
    from coerce_optional_row [OF n assms(4) present bad] o w show ?thesis by auto
  qed
  from 1 2 3 4 s show ?thesis by (simp add: sch_def)
qed

lemma de_th_zero_migrate: "de_th_migrate de_th_zero = Inr de_th_zero_migrated"
  by code_simp

lemma de_th_zero_filter:
  "run_filters de_th_COLUMN_FILTERS de_th_zero_migrated = Inr de_th_zero_filtered"
  by code_simp

lemma de_th_zero_column:
  "get_column de_th_zero_filtered ''FB_FL_VJ'' = Inr [Float 0, Float (4 / 5)]"
  by code_simp

lemma de_th_zero_stages: "case convert_table de_th de_th_zero of Inl e \<Rightarrow> False | Inr pruned \<Rightarrow> True"
  by code_simp

lemma de_th_zero_convert_table: "\<exists>pruned. convert_table de_th de_th_zero = Inr pruned"
  using de_th_zero_stages by (cases "convert_table de_th de_th_zero") auto

theorem C5_area_last_year_zero_witness:
  "de_th_migrate de_th_zero = Inr de_th_zero_migrated \<and>
   run_filters de_th_COLUMN_FILTERS de_th_zero_migrated = Inr de_th_zero_filtered \<and>
   get_column de_th_zero_filtered ''FB_FL_VJ'' = Inr [Float 0, Float (4 / 5)] \<and>
   (0 :: nat) < length [Float 0, Float (4 / 5) :: real cell] \<and>
   number_of ([Float 0, Float (4 / 5) :: real cell] ! 0) = Some 0 \<and>
   convert de_th de_th_MISSING_properties de_th_MISSING_required de_th_zero = Inl CoercionError"
proof -
  have 4: "(0 :: nat) < length [Float 0, Float (4 / 5) :: real cell]" by simp
  have 5: "number_of ([Float 0, Float (4 / 5) :: real cell] ! 0) = Some 0" by simp
  obtain pruned where p: "convert_table de_th de_th_zero = Inr pruned"
    using de_th_zero_convert_table by blast
  from C5_area_last_year_zero [OF de_th_zero_migrate de_th_zero_filter de_th_zero_column 4 5] p
  have "convert de_th de_th_MISSING_properties de_th_MISSING_required de_th_zero =
      Inl CoercionError" by simp
  with de_th_zero_migrate de_th_zero_filter de_th_zero_column 4 5 show ?thesis by blast
qed

text \<open>
  A 0 in FB\_FL\_VJ does not always end the run: in the example the 0 is in the row that
  the row filter drops, and the run returns the two other rows without a warning.
\<close>

theorem C5_filtered_zero_counterexample:
  "get_column de_th_example ''FB_FL_VJ'' = Inr [Float (6 / 5), Float (4 / 5), Float 0] \<and>
   convert de_th de_th_MISSING_properties de_th_MISSING_required de_th_example =
     Inr (de_th_example_out, [])"
  by code_simp

subsection \<open>No cardinality error\<close>

lemma run_column_migrations_no_cardinality_error:
  "list_all (\<lambda>(name, f). \<forall>c. case f c of
       Inr changed \<Rightarrow> length changed = length c
     | Inl e \<Rightarrow> e \<noteq> CardinalityError) ms \<Longrightarrow>
   run_column_migrations ms gdf \<noteq> Inl CardinalityError"
proof (induction ms arbitrary: gdf)
  case Nil
  then show ?case by simp
next
  case (Cons m ms)
  obtain name f where m: "m = (name, f)" by (cases m)
  from Cons.prems m have f: "\<And>c. case f c of
       Inr changed \<Rightarrow> length changed = length c
     | Inl e \<Rightarrow> e \<noteq> CardinalityError"
    and rest: "list_all (\<lambda>(name, f). \<forall>c. case f c of
       Inr changed \<Rightarrow> length changed = length c
     | Inl e \<Rightarrow> e \<noteq> CardinalityError) ms"
    by auto
  show ?case
  proof (cases "map_of gdf name")
    case None
    then show ?thesis using m by simp
  next
    case (Some column)
    show ?thesis
    proof (cases "f column")
      case (Inl e)
      with f [of column] Some m show ?thesis by simp
    next
      case (Inr changed)
      with f [of column] have "length changed = length column" by simp
      with Inr Some m Cons.IH [OF rest] show ?thesis by simp
    qed
  qed
qed

text \<open>
  With the four de\_th migrations the engine never ends in a cardinality error.
\<close>

lemma de_th_no_cardinality_error:
  "run_column_migrations de_th_COLUMN_MIGRATIONS gdf \<noteq> Inl CardinalityError"
  by (rule run_column_migrations_no_cardinality_error)
     (simp add: de_th_COLUMN_MIGRATIONS_def returns_def migrate_AFO_def migrate_KOND_LE_def
      migrate_AENDERUNG_def migrate_FBI_VJ_def fillna_def series_map_def str_split_def)

end
